theory Spec2Isabelle
  imports Main "HOL-Library.Sublist"
begin

section \<open>JavaScript values that the plugin passes around\<close>

text \<open>
  The plugin throws and catches JavaScript values, reads properties of a registry
  response of type \<open>any\<close>, and interpolates values into template literals. The values
  are modelled by a datatype: the primitives, plain objects as association lists of
  their own properties (listed without duplicate keys), and error objects with their
  class and their \<open>message\<close>. Numbers are the integers that JavaScript prints in plain
  decimal notation.
\<close>

datatype err_class = ErrorC | TypeErrorC | DownloadErrorC | UnsupportedErrorC

datatype js_value =
    Undefined
  | Null
  | Bool bool
  | Num int
  | Str string
  | Obj "(string \<times> js_value) list"
  | Err err_class string

text \<open>
  \<open>class DownloadError extends Error\<close> and \<open>class UnsupportedError extends Error\<close> set
  \<open>this.name\<close> to the class name; \<open>Error\<close> and \<open>TypeError\<close> have theirs built in.
\<close>

fun class_name :: "err_class \<Rightarrow> string" where
  "class_name ErrorC = ''Error''"
| "class_name TypeErrorC = ''TypeError''"
| "class_name DownloadErrorC = ''DownloadError''"
| "class_name UnsupportedErrorC = ''UnsupportedError''"

text \<open>\<open>e instanceof DownloadError\<close>.\<close>

fun instanceof_DownloadError :: "js_value \<Rightarrow> bool" where
  "instanceof_DownloadError (Err DownloadErrorC m) = True"
| "instanceof_DownloadError v = False"

section \<open>Platform resolution\<close>

text \<open>
  Both versions of \<open>getNativeBinding\<close> start by mapping \<open>process.platform\<close> and
  \<open>process.arch\<close> to the name of the native package, \<open>nodeName\<close>, or throw an
  \<open>UnsupportedError\<close>. The result of the libc probe \<open>isMusl()\<close> is the boolean \<open>musl\<close>.
\<close>

text \<open>
  Indexing an object literal finds the keys written in it and, besides them, the members
  that every plain object inherits from \<open>Object.prototype\<close>. No platform or architecture
  name of Node is one of these twelve names. The table below holds the written keys, so
  the lookup in it is the lookup of the code for every string outside
  \<open>Object_prototype_keys\<close>; the theorems whose truth depends on this carry it as a
  hypothesis on the platform and on the architecture.
\<close>

definition Object_prototype_keys :: "string list" where
  "Object_prototype_keys =
    [''constructor'', ''__defineGetter__'', ''__defineSetter__'', ''hasOwnProperty'',
     ''__lookupGetter__'', ''__lookupSetter__'', ''isPrototypeOf'', ''propertyIsEnumerable'',
     ''toString'', ''valueOf'', ''__proto__'', ''toLocaleString'']"

definition platformArchMap :: "bool \<Rightarrow> (string \<times> (string \<times> string) list) list" where
  "platformArchMap musl =
    [(''android'',
        [(''arm64'', ''pinyin.android-arm64''),
         (''arm'', ''pinyin.android-arm-eabi'')]),
     (''win32'',
        [(''x64'', ''pinyin.win32-x64-msvc''),
         (''ia32'', ''pinyin.win32-ia32-msvc''),
         (''arm64'', ''pinyin.win32-arm64-msvc'')]),
     (''darwin'',
        [(''x64'', ''pinyin.darwin-x64''),
         (''arm64'', ''pinyin.darwin-arm64'')]),
     (''freebsd'',
        [(''x64'', ''pinyin.freebsd-x64'')]),
     (''linux'',
        [(''x64'', if musl then ''pinyin.linux-x64-musl'' else ''pinyin.linux-x64-gnu''),
         (''arm64'', if musl then ''pinyin.linux-arm64-musl'' else ''pinyin.linux-arm64-gnu''),
         (''arm'', ''pinyin.linux-arm-gnueabihf'')])]"

text \<open>
  The table-driven version (\<open>src/src/downloader.ts\<close>, second document, lines 226 to 260).
  For a platform and an architecture outside \<open>Object_prototype_keys\<close>,
  \<open>!platformArchMap[platform]\<close> holds when the key is missing and
  \<open>!platformArchMap[platform][arch]\<close> holds when the key is missing or its string is empty.
\<close>

definition resolve_table :: "bool \<Rightarrow> string \<Rightarrow> string \<Rightarrow> js_value + string" where
  "resolve_table musl platform arch =
    (case map_of (platformArchMap musl) platform of
       None \<Rightarrow>
         Inl (Err UnsupportedErrorC
               (''Unsupported OS: '' @ platform @ '', architecture: '' @ arch))
     | Some archMap \<Rightarrow>
         (case map_of archMap arch of
            None \<Rightarrow>
              Inl (Err UnsupportedErrorC
                    (''Unsupported architecture on '' @ platform @ '': '' @ arch))
          | Some nodeName \<Rightarrow>
              if nodeName = [] then
                Inl (Err UnsupportedErrorC
                      (''Unsupported architecture on '' @ platform @ '': '' @ arch))
              else Inr nodeName))"

text \<open>
  The nested-switch version (\<open>src/unnamed/part_000\<close>, lines 139 to 222). \<open>isMusl()\<close> is
  called in the two Linux branches only.
\<close>

definition resolve_switch :: "bool \<Rightarrow> string \<Rightarrow> string \<Rightarrow> js_value + string" where
  "resolve_switch musl platform arch =
    (if platform = ''android'' then
       (if arch = ''arm64'' then Inr ''pinyin.android-arm64''
        else if arch = ''arm'' then Inr ''pinyin.android-arm-eabi''
        else Inl (Err UnsupportedErrorC (''Unsupported architecture on Android '' @ arch)))
     else if platform = ''win32'' then
       (if arch = ''x64'' then Inr ''pinyin.win32-x64-msvc''
        else if arch = ''ia32'' then Inr ''pinyin.win32-ia32-msvc''
        else if arch = ''arm64'' then Inr ''pinyin.win32-arm64-msvc''
        else Inl (Err UnsupportedErrorC (''Unsupported architecture on Windows: '' @ arch)))
     else if platform = ''darwin'' then
       (if arch = ''x64'' then Inr ''pinyin.darwin-x64''
        else if arch = ''arm64'' then Inr ''pinyin.darwin-arm64''
        else Inl (Err UnsupportedErrorC (''Unsupported architecture on macOS: '' @ arch)))
     else if platform = ''freebsd'' then
       (if arch \<noteq> ''x64'' then
          Inl (Err UnsupportedErrorC (''Unsupported architecture on FreeBSD: '' @ arch))
        else Inr ''pinyin.freebsd-x64'')
     else if platform = ''linux'' then
       (if arch = ''x64'' then
          (if musl then Inr ''pinyin.linux-x64-musl'' else Inr ''pinyin.linux-x64-gnu'')
        else if arch = ''arm64'' then
          (if musl then Inr ''pinyin.linux-arm64-musl'' else Inr ''pinyin.linux-arm64-gnu'')
        else if arch = ''arm'' then Inr ''pinyin.linux-arm-gnueabihf''
        else Inl (Err UnsupportedErrorC (''Unsupported architecture on Linux: '' @ arch)))
     else
       Inl (Err UnsupportedErrorC
             (''Unsupported OS: '' @ platform @ '', architecture: '' @ arch)))"

text \<open>
  The support table read off the literal: the architectures listed under a platform, and
  all listed (platform, architecture) pairs. The keys do not depend on the libc probe.
\<close>

definition archs_of :: "string \<Rightarrow> string list option" where
  "archs_of platform = map_option (map fst) (map_of (platformArchMap False) platform)"

definition supported_pairs :: "(string \<times> string) list" where
  "supported_pairs =
    concat (map (\<lambda>(p, archMap). map (\<lambda>(a, n). (p, a)) archMap) (platformArchMap False))"

definition unsupported :: "string \<Rightarrow> string \<Rightarrow> bool" where
  "unsupported platform arch =
    (case archs_of platform of None \<Rightarrow> True | Some as \<Rightarrow> arch \<notin> set as)"

text \<open>
  The word that the nested switch writes for a platform in its messages about a missing
  architecture (\<open>Android\<close>, \<open>Windows\<close>, \<open>macOS\<close>, \<open>FreeBSD\<close>, \<open>Linux\<close>); a platform
  without a case is reported by its own string.
\<close>

definition os_label :: "string \<Rightarrow> string" where
  "os_label platform =
    (if platform = ''android'' then ''Android''
     else if platform = ''win32'' then ''Windows''
     else if platform = ''darwin'' then ''macOS''
     else if platform = ''freebsd'' then ''FreeBSD''
     else if platform = ''linux'' then ''Linux''
     else platform)"

section \<open>Reading and printing JavaScript values\<close>

text \<open>The single quote that V8 and Node put around names in their messages.\<close>

definition apostrophe :: string where
  "apostrophe = [CHR 0x27]"

text \<open>
  Reading a property. On \<open>undefined\<close> and \<open>null\<close> the read throws a \<open>TypeError\<close> with
  V8's message. The program reads only \<open>dist\<close>, \<open>tarball\<close>, \<open>message\<close> and (on the HTTP
  client) \<open>get\<close>; no primitive has a property of one of these names, an error object
  has \<open>message\<close> and \<open>name\<close>, and a plain object has what is listed.
\<close>

fun js_get :: "js_value \<Rightarrow> string \<Rightarrow> js_value + js_value" where
  "js_get Undefined k =
     Inl (Err TypeErrorC
           (''Cannot read properties of undefined (reading '' @ apostrophe @ k @ apostrophe @ '')''))"
| "js_get Null k =
     Inl (Err TypeErrorC
           (''Cannot read properties of null (reading '' @ apostrophe @ k @ apostrophe @ '')''))"
| "js_get (Obj props) k = Inr (case map_of props k of None \<Rightarrow> Undefined | Some v \<Rightarrow> v)"
| "js_get (Err c m) k =
     Inr (if k = ''message'' then Str m
          else if k = ''name'' then Str (class_name c)
          else Undefined)"
| "js_get v k = Inr Undefined"

text \<open>The test \<open>!v\<close> is \<open>\<not> truthy v\<close>.\<close>

fun truthy :: "js_value \<Rightarrow> bool" where
  "truthy Undefined = False"
| "truthy Null = False"
| "truthy (Bool b) = b"
| "truthy (Num n) = (n \<noteq> 0)"
| "truthy (Str s) = (s \<noteq> [])"
| "truthy v = True"

definition digit_char :: "nat \<Rightarrow> char" where
  "digit_char d = ''0123456789'' ! d"

function nat_digits :: "nat \<Rightarrow> string" where
  "nat_digits n =
    (if n < 10 then [digit_char n] else nat_digits (n div 10) @ [digit_char (n mod 10)])"
  by pat_completeness auto
termination
  by (relation "measure id") auto

text \<open>What a template literal inserts for a value.\<close>

fun to_string :: "js_value \<Rightarrow> string" where
  "to_string Undefined = ''undefined''"
| "to_string Null = ''null''"
| "to_string (Bool b) = (if b then ''true'' else ''false'')"
| "to_string (Num n) = (if n < 0 then ''-'' @ nat_digits (nat (- n)) else nat_digits (nat n))"
| "to_string (Str s) = s"
| "to_string (Obj props) = ''[object Object]''"
| "to_string (Err c m) = (if m = [] then class_name c else class_name c @ '': '' @ m)"

section \<open>The world outside the plugin\<close>

text \<open>
  The plugin talks to the file system, the registry, the download library, the gzip and
  tar streams and the module loader. Each call is recorded in a trace; the set of
  existing files is the part of the file system that the plugin tests.
\<close>

datatype event =
    ExistsSync string
  | HttpGet string
  | Download js_value string
  | Extract string
  | Require string
  | LogInfo string
  | LogError string js_value
  | LogSuccess string

record world =
  files :: "string set"
  trace :: "event list"

definition emit :: "event \<Rightarrow> world \<Rightarrow> world" where
  "emit ev w = w\<lparr>trace := trace w @ [ev]\<rparr>"


fun is_extract :: "event \<Rightarrow> bool" where
  "is_extract (Extract p) = True"
| "is_extract ev = False"


definition extractions :: "world \<Rightarrow> event list" where
  "extractions w = filter is_extract (trace w)"

text \<open>
  How the three piped streams of \<open>extract\<close> end: the first event that settles the
  promise. \<open>SetupThrows\<close> is an exception thrown while the streams are created.
\<close>

datatype stream_end =
    ReadError js_value
  | GunzipError js_value
  | ExtractError js_value
  | Finish
  | SetupThrows js_value

text \<open>
  The answers of the outside world. \<open>http_get\<close> and \<open>download\<close> return \<open>Inl e\<close> when the
  promise rejects with \<open>e\<close>; \<open>download\<close> resolves to \<open>filePath\<close> and \<open>downloadStatus\<close>;
  \<open>new_Downloader\<close> is \<open>Some e\<close> when the constructor throws \<open>e\<close>; \<open>unpack\<close> gives the
  archive entries written below the output directory and how the streams ended;
  \<open>load_module\<close> is what \<open>require\<close> does with a file that exists. The functions of
  Node's \<open>path\<close> module are parameters as well.
\<close>

record 'b env =
  isMusl :: bool
  path_join :: "string list \<Rightarrow> string"
  path_resolve :: "string \<Rightarrow> string"
  path_dirname :: "string \<Rightarrow> string"
  http_get :: "string \<Rightarrow> js_value + js_value"
  new_Downloader :: "js_value \<Rightarrow> string \<Rightarrow> js_value option"
  download :: "js_value \<Rightarrow> string \<Rightarrow> js_value + (string \<times> string)"
  unpack :: "string \<Rightarrow> string list \<times> stream_end"
  load_module :: "string \<Rightarrow> js_value + 'b"

section \<open>The downloader\<close>

text \<open>\<open>s.replace(c, r)\<close> with a one-character pattern: the first occurrence only.\<close>

fun replace_first :: "char \<Rightarrow> string \<Rightarrow> string \<Rightarrow> string" where
  "replace_first c r [] = []"
| "replace_first c r (x # xs) = (if x = c then r @ xs else x # replace_first c r xs)"

definition metadata_url :: "string \<Rightarrow> string" where
  "metadata_url nodeName =
    ''https://registry.npmjs.com/@napi-rs/'' @ replace_first CHR ''.'' ''-'' nodeName @ ''/latest''"

text \<open>
  \<open>extract\<close> (lines 72 to 108), named \<open>extract_tgz\<close> here. The promise is rejected
  with a string, not with an error object. The entries that tar has written are files
  from then on, whether or not a stream fails later.
\<close>

definition extract_tgz :: "'b env \<Rightarrow> string \<Rightarrow> world \<Rightarrow> (js_value + unit) \<times> world" where
  "extract_tgz env filePath w =
    (let w1 = emit (Extract filePath) w;
         outputDir = path_dirname env filePath;
         (written, ending) = unpack env filePath;
         w2 = w1\<lparr>files := files w1 \<union> (\<lambda>entry. path_join env [outputDir, entry]) ` set written\<rparr>
     in case ending of
          ReadError err \<Rightarrow>
            (Inl (Str (''An error occurred while reading the file: '' @ to_string err)), w2)
        | GunzipError err \<Rightarrow>
            (Inl (Str (''An error occurred while gunzipping the file: '' @ to_string err)), w2)
        | ExtractError err \<Rightarrow>
            (Inl (Str (''An error occurred during extraction: '' @ to_string err)), w2)
        | Finish \<Rightarrow> (Inr (), w2)
        | SetupThrows err \<Rightarrow>
            (Inl (Str (''An unexpected error occurred during the extraction process: ''
                       @ to_string err)), w2))"

text \<open>
  The value thrown by a catch block that throws a new \<open>DownloadError\<close> whose message is a
  fixed introduction followed by \<open>e.message\<close>: reading \<open>e.message\<close> throws itself when \<open>e\<close> is
  \<open>undefined\<close> or \<open>null\<close>.
\<close>

definition rethrow :: "string \<Rightarrow> js_value \<Rightarrow> js_value" where
  "rethrow intro e =
    (case js_get e ''message'' of
       Inl typeError \<Rightarrow> typeError
     | Inr m \<Rightarrow> Err DownloadErrorC (intro @ to_string m))"

text \<open>\<open>res.dist.tarball\<close>: either read throws when its object is \<open>undefined\<close> or \<open>null\<close>.\<close>

definition tarball_of :: "js_value \<Rightarrow> js_value + js_value" where
  "tarball_of res =
    (case js_get res ''dist'' of
       Inl typeError \<Rightarrow> Inl typeError
     | Inr dist \<Rightarrow> js_get dist ''tarball'')"

text \<open>
  The first \<open>try\<close> block of \<open>handleFile\<close> (lines 29 to 32). Without a client,
  \<open>http.get\<close> throws before any request is made.
\<close>

definition fetch_tarball ::
  "(string \<Rightarrow> js_value + js_value) option \<Rightarrow> string \<Rightarrow> world \<Rightarrow> (js_value + js_value) \<times> world"
where
  "fetch_tarball http url w =
    (case http of
       None \<Rightarrow> (js_get Undefined ''get'', w)
     | Some get \<Rightarrow>
         (let w1 = emit (HttpGet url) w in
          case get url of
            Inl e \<Rightarrow> (Inl e, w1)
          | Inr res \<Rightarrow>
              (case tarball_of res of
                 Inl e \<Rightarrow> (Inl e, w1)
               | Inr tarballUrl \<Rightarrow>
                   (Inr tarballUrl,
                    emit (LogInfo (''Stating download from '' @ to_string tarballUrl)) w1))))"

text \<open>
  The second \<open>try\<close> block (lines 53 to 59). The library has stored the archive at
  \<open>filePath\<close> when it reports \<open>COMPLETE\<close>. The progress lines that the library prints
  through \<open>onProgress\<close> while it downloads are not recorded.
\<close>

definition download_and_extract ::
  "'b env \<Rightarrow> js_value \<Rightarrow> string \<Rightarrow> world \<Rightarrow> (js_value + unit) \<times> world"
where
  "download_and_extract env tarballUrl nodeDir w =
    (let w1 = emit (Download tarballUrl nodeDir) w in
     case download env tarballUrl nodeDir of
       Inl e \<Rightarrow> (Inl e, w1)
     | Inr (filePath, downloadStatus) \<Rightarrow>
         if downloadStatus = ''COMPLETE'' then
           (let w2 = w1\<lparr>files := insert (path_resolve env filePath) (files w1)\<rparr> in
            case extract_tgz env (path_resolve env filePath) w2 of
              (Inl e, w3) \<Rightarrow> (Inl e, w3)
            | (Inr u, w3) \<Rightarrow>
                (Inr (), emit (LogSuccess (''File downloaded successfully at '' @ filePath)) w3))
         else (Inl (Err DownloadErrorC ''Download was aborted''), w1))"

text \<open>\<open>handleFile\<close> (lines 16 to 64); \<open>http\<close> is \<open>None\<close> when the caller passes no client.\<close>

definition handleFile ::
  "'b env \<Rightarrow> (string \<Rightarrow> js_value + js_value) option \<Rightarrow> string \<Rightarrow> string \<Rightarrow> world
     \<Rightarrow> (js_value + unit) \<times> world"
where
  "handleFile env http nodeDir nodeName w =
    (let url = metadata_url nodeName in
     case fetch_tarball http url w of
       (Inl e, w1) \<Rightarrow>
         (Inl (rethrow ''Failed to fetch from URL: '' e),
          emit (LogError (''Failed to fetch from URL: '' @ url) e) w1)
     | (Inr tarballUrl, w1) \<Rightarrow>
         if \<not> truthy tarballUrl then
           (Inl (Err DownloadErrorC (''Failed to get the binary url from '' @ url)), w1)
         else
           (case new_Downloader env tarballUrl nodeDir of
              Some e \<Rightarrow> (Inl e, w1)
            | None \<Rightarrow>
                (case download_and_extract env tarballUrl nodeDir w1 of
                   (Inl e, w2) \<Rightarrow>
                     (Inl (rethrow ''Failed to download the binary file: '' e),
                      emit (LogError ''Failed to download the file'' e) w2)
                 | (Inr u, w2) \<Rightarrow> (Inr (), w2))))"

section \<open>Loading the native binding\<close>

text \<open>
  The text of the error log line in \<open>getNativeBinding\<close>, a Chinese sentence ("an error
  occurred while handling the binary file"), as its UTF-8 bytes.
\<close>

definition msg_binary_failed :: string where
  "msg_binary_failed = map char_of
    [229, 156, 168, 229, 164, 132, 231, 144, 134, 228, 186, 140, 232, 191, 155,
     229, 136, 182, 230, 150, 135, 228, 187, 182, 230, 151, 182, 233, 129, 135,
     229, 136, 176, 228, 186, 134, 233, 148, 153, 232, 175, 175 :: nat]"

text \<open>
  \<open>require(nodePath)\<close> of an absolute file name that ends in \<open>.node\<close>: without the file
  there is no module to load, with it the loader decides.
\<close>

definition require :: "'b env \<Rightarrow> string \<Rightarrow> world \<Rightarrow> (js_value + 'b) \<times> world" where
  "require env nodePath w =
    (let w1 = emit (Require nodePath) w in
     if nodePath \<in> files w then (load_module env nodePath, w1)
     else (Inl (Err ErrorC (''Cannot find module '' @ apostrophe @ nodePath @ apostrophe)), w1))"

definition nodePath_of :: "'b env \<Rightarrow> string \<Rightarrow> string \<Rightarrow> string" where
  "nodePath_of env nodeDir nodeName = path_join env [nodeDir, ''package'', nodeName @ ''.node'']"

text \<open>The \<open>catch\<close> block of \<open>getNativeBinding\<close>.\<close>

definition binding_failed ::
  "string \<Rightarrow> string \<Rightarrow> string \<Rightarrow> js_value \<Rightarrow> world \<Rightarrow> (js_value + 'b) \<times> world"
where
  "binding_failed nodePath platform arch e w =
    (let w1 = emit (LogError msg_binary_failed e) w in
     if instanceof_DownloadError e then (Inl e, w1)
     else (Inl (Err ErrorC (''Failed to use '' @ nodePath @ '' on '' @ platform @ ''-'' @ arch)),
           w1))"

text \<open>
  The second half of \<open>getNativeBinding\<close>, the same text in both versions (lines 262 to
  276 of the table-driven one, 223 to 236 of the nested switch) up to the arguments of
  \<open>handleFile\<close>.
\<close>

definition load_binding ::
  "'b env \<Rightarrow> (string \<Rightarrow> js_value + js_value) option \<Rightarrow> string \<Rightarrow> string \<Rightarrow> string \<Rightarrow> string
     \<Rightarrow> world \<Rightarrow> (js_value + 'b) \<times> world"
where
  "load_binding env http nodeDir nodeName platform arch w =
    (let nodePath = nodePath_of env nodeDir nodeName;
         localFileExisted = (nodePath \<in> files w);
         w1 = emit (ExistsSync nodePath) w;
         (ensured, w2) =
           (if \<not> localFileExisted then handleFile env http nodeDir nodeName w1
            else (Inr (), w1))
     in case ensured of
          Inl e \<Rightarrow> binding_failed nodePath platform arch e w2
        | Inr u \<Rightarrow>
            (case require env nodePath w2 of
               (Inl e, w3) \<Rightarrow> binding_failed nodePath platform arch e w3
             | (Inr nativeBinding, w3) \<Rightarrow> (Inr nativeBinding, w3)))"



section \<open>Example worlds\<close>

text \<open>
  A world in which everything works, used to run the definitions on concrete inputs:
  POSIX paths that are already normalised, a registry that answers with a tarball URL,
  a download that completes in the target directory, and an archive that holds
  \<open>package/pinyin.linux-x64-gnu.node\<close>.
\<close>

fun posix_join :: "string list \<Rightarrow> string" where
  "posix_join [] = ''.''"
| "posix_join [p] = p"
| "posix_join (p # ps) = p @ ''/'' @ posix_join ps"

definition posix_dirname :: "string \<Rightarrow> string" where
  "posix_dirname p = rev (tl (dropWhile (\<lambda>c. c \<noteq> CHR ''/'') (rev p)))"

definition good_response :: js_value where
  "good_response = Obj [(''dist'', Obj [(''tarball'', Str ''https://example/X.tgz'')])]"

definition example_env :: "nat env" where
  "example_env =
    \<lparr>isMusl = False,
     path_join = posix_join,
     path_resolve = (\<lambda>p. p),
     path_dirname = posix_dirname,
     http_get = (\<lambda>url. Inr good_response),
     new_Downloader = (\<lambda>url dir. None),
     download = (\<lambda>url dir. Inr (dir @ ''/X.tgz'', ''COMPLETE'')),
     unpack = (\<lambda>p. ([''package/pinyin.linux-x64-gnu.node''], Finish)),
     load_module = (\<lambda>p. Inr 0)\<rparr>"

definition empty_world :: world where
  "empty_world = \<lparr>files = {}, trace = []\<rparr>"


section \<open>Properties of the resolvers\<close>

text \<open>
  C4. On Linux x64 and Linux arm64 both resolvers return the \<open>musl\<close> package when the
  probe says musl and the \<open>gnu\<close> package otherwise; for each architecture the two names
  are one common stem followed by \<open>musl\<close> or by \<open>gnu\<close>.
\<close>

theorem linux_libc_suffix:
  "resolve_table True ''linux'' ''x64'' = Inr (''pinyin.linux-x64-'' @ ''musl'')
   \<and> resolve_table False ''linux'' ''x64'' = Inr (''pinyin.linux-x64-'' @ ''gnu'')
   \<and> resolve_table True ''linux'' ''arm64'' = Inr (''pinyin.linux-arm64-'' @ ''musl'')
   \<and> resolve_table False ''linux'' ''arm64'' = Inr (''pinyin.linux-arm64-'' @ ''gnu'')
   \<and> resolve_switch True ''linux'' ''x64'' = Inr (''pinyin.linux-x64-'' @ ''musl'')
   \<and> resolve_switch False ''linux'' ''x64'' = Inr (''pinyin.linux-x64-'' @ ''gnu'')
   \<and> resolve_switch True ''linux'' ''arm64'' = Inr (''pinyin.linux-arm64-'' @ ''musl'')
   \<and> resolve_switch False ''linux'' ''arm64'' = Inr (''pinyin.linux-arm64-'' @ ''gnu'')"
  by (simp add: resolve_table_def resolve_switch_def platformArchMap_def)

lemma archs_of_cases:
  "archs_of p = Some as \<Longrightarrow>
     p = ''android'' \<and> as = [''arm64'', ''arm'']
   \<or> p = ''win32'' \<and> as = [''x64'', ''ia32'', ''arm64'']
   \<or> p = ''darwin'' \<and> as = [''x64'', ''arm64'']
   \<or> p = ''freebsd'' \<and> as = [''x64'']
   \<or> p = ''linux'' \<and> as = [''x64'', ''arm64'', ''arm'']"
  by (simp add: archs_of_def platformArchMap_def split: if_splits)

lemma unknown_os_message:
  assumes "archs_of p = None"
  shows "resolve_table musl p a =
           Inl (Err UnsupportedErrorC (''Unsupported OS: '' @ p @ '', architecture: '' @ a))"
    and "resolve_switch musl p a =
           Inl (Err UnsupportedErrorC (''Unsupported OS: '' @ p @ '', architecture: '' @ a))"
  using assms
  by (simp_all add: archs_of_def resolve_table_def resolve_switch_def platformArchMap_def
        split: if_splits)

lemma unknown_arch_message_table:
  assumes "archs_of p = Some as" and "a \<notin> set as"
  shows "resolve_table musl p a =
           Inl (Err UnsupportedErrorC (''Unsupported architecture on '' @ p @ '': '' @ a))"
  using archs_of_cases [OF assms(1)] assms(2)
  by (elim disjE conjE) (simp_all add: resolve_table_def platformArchMap_def)

lemma unknown_arch_message_switch:
  assumes "archs_of p = Some as" and "a \<notin> set as"
  shows "resolve_switch musl p a =
           Inl (Err UnsupportedErrorC
                 (''Unsupported architecture on '' @ os_label p
                    @ (if p = ''android'' then '' '' else '': '') @ a))"
  using archs_of_cases [OF assms(1)] assms(2)
  by (elim disjE conjE) (simp_all add: resolve_switch_def os_label_def)

lemma sublist_second: "sublist xs (ps @ xs @ ss)"
  by (rule sublist_appendI)

lemma sublist_last3: "sublist xs (ps @ qs @ rs @ xs)"
  using sublist_append_leftI [of xs "ps @ qs @ rs"] by simp

text \<open>
  C1. The support table lists the eleven pairs Android (arm64, arm), win32 (x64, ia32,
  arm64), darwin (x64, arm64), FreeBSD (x64) and Linux (x64, arm64, arm). On each of
  them both resolvers return the package name of the table entry, and two different
  pairs never get the same name, whatever the libc probes say.
\<close>

theorem supported_pairs_identifiers:
  "supported_pairs =
     [(''android'', ''arm64''), (''android'', ''arm''),
      (''win32'', ''x64''), (''win32'', ''ia32''), (''win32'', ''arm64''),
      (''darwin'', ''x64''), (''darwin'', ''arm64''),
      (''freebsd'', ''x64''),
      (''linux'', ''x64''), (''linux'', ''arm64''), (''linux'', ''arm'')]
   \<and> map (\<lambda>(p, a). resolve_table musl p a) supported_pairs =
       map Inr
         [''pinyin.android-arm64'', ''pinyin.android-arm-eabi'',
          ''pinyin.win32-x64-msvc'', ''pinyin.win32-ia32-msvc'', ''pinyin.win32-arm64-msvc'',
          ''pinyin.darwin-x64'', ''pinyin.darwin-arm64'',
          ''pinyin.freebsd-x64'',
          if musl then ''pinyin.linux-x64-musl'' else ''pinyin.linux-x64-gnu'',
          if musl then ''pinyin.linux-arm64-musl'' else ''pinyin.linux-arm64-gnu'',
          ''pinyin.linux-arm-gnueabihf'']
   \<and> map (\<lambda>(p, a). resolve_switch musl p a) supported_pairs =
       map (\<lambda>(p, a). resolve_table musl p a) supported_pairs
   \<and> (\<forall>pa \<in> set supported_pairs. \<forall>pa' \<in> set supported_pairs. \<forall>m m'.
         resolve_table m (fst pa) (snd pa) = resolve_table m' (fst pa') (snd pa')
           \<longrightarrow> pa = pa')
   \<and> (\<forall>pa \<in> set supported_pairs. \<forall>pa' \<in> set supported_pairs. \<forall>m m'.
         resolve_switch m (fst pa) (snd pa) = resolve_switch m' (fst pa') (snd pa')
           \<longrightarrow> pa = pa')"
proof (intro conjI)
  show "\<forall>pa \<in> set supported_pairs. \<forall>pa' \<in> set supported_pairs. \<forall>m m'.
         resolve_table m (fst pa) (snd pa) = resolve_table m' (fst pa') (snd pa')
           \<longrightarrow> pa = pa'"
    by (simp add: supported_pairs_def resolve_table_def platformArchMap_def)
  show "\<forall>pa \<in> set supported_pairs. \<forall>pa' \<in> set supported_pairs. \<forall>m m'.
         resolve_switch m (fst pa) (snd pa) = resolve_switch m' (fst pa') (snd pa')
           \<longrightarrow> pa = pa'"
    by (simp add: supported_pairs_def resolve_switch_def platformArchMap_def)
qed (simp_all add: supported_pairs_def resolve_table_def resolve_switch_def platformArchMap_def)

theorem supported_pairs_identifiers_witness:
  "(''win32'', ''x64'') \<in> set supported_pairs
   \<and> (''darwin'', ''arm64'') \<in> set supported_pairs
   \<and> resolve_table True (fst (''win32'', ''x64'')) (snd (''win32'', ''x64''))
       \<noteq> resolve_table False (fst (''darwin'', ''arm64'')) (snd (''darwin'', ''arm64''))
   \<and> resolve_switch True (fst (''win32'', ''x64'')) (snd (''win32'', ''x64''))
       \<noteq> resolve_switch False (fst (''darwin'', ''arm64'')) (snd (''darwin'', ''arm64''))"
proof -
  note t = supported_pairs_identifiers [of True]
  have pairs: "(''win32'', ''x64'') \<in> set supported_pairs"
    "(''darwin'', ''arm64'') \<in> set supported_pairs"
    unfolding conjunct1 [OF t] by simp_all
  from t have inj_table: "\<forall>pa \<in> set supported_pairs. \<forall>pa' \<in> set supported_pairs. \<forall>m m'.
         resolve_table m (fst pa) (snd pa) = resolve_table m' (fst pa') (snd pa')
           \<longrightarrow> pa = pa'"
    by blast
  from t have inj_switch: "\<forall>pa \<in> set supported_pairs. \<forall>pa' \<in> set supported_pairs. \<forall>m m'.
         resolve_switch m (fst pa) (snd pa) = resolve_switch m' (fst pa') (snd pa')
           \<longrightarrow> pa = pa'"
    by blast
  have ne: "(''win32'', ''x64'') \<noteq> (''darwin'', ''arm64'')"
    by simp
  from inj_table pairs ne
  have "resolve_table True (fst (''win32'', ''x64'')) (snd (''win32'', ''x64''))
       \<noteq> resolve_table False (fst (''darwin'', ''arm64'')) (snd (''darwin'', ''arm64''))"
    by blast
  moreover from inj_switch pairs ne
  have "resolve_switch True (fst (''win32'', ''x64'')) (snd (''win32'', ''x64''))
       \<noteq> resolve_switch False (fst (''darwin'', ''arm64'')) (snd (''darwin'', ''arm64''))"
    by blast
  ultimately show ?thesis
    using pairs by blast
qed

text \<open>
  C3. Let the platform and the architecture be strings that name no inherited member of
  an object, as all of Node's names are. When the platform is not a key of the support
  table, or it is one and the architecture is not listed under it, both resolvers throw
  an \<open>UnsupportedError\<close>. The
  message of the table-driven resolver contains the platform string and the architecture
  string; the message of the nested switch contains the architecture string and the
  operating system, written as the platform string when the platform is unknown and as
  the name of the system (Android, Windows, macOS, FreeBSD, Linux) otherwise.
\<close>

theorem unsupported_pair_throws:
  assumes "unsupported platform arch"
    and "platform \<notin> set Object_prototype_keys"
    and "arch \<notin> set Object_prototype_keys"
  shows "(\<exists>msg. resolve_table musl platform arch = Inl (Err UnsupportedErrorC msg)
            \<and> sublist platform msg \<and> sublist arch msg)
       \<and> (\<exists>msg. resolve_switch musl platform arch = Inl (Err UnsupportedErrorC msg)
            \<and> sublist (os_label platform) msg \<and> sublist arch msg)"
proof (cases "archs_of platform")
  case None
  then have label: "os_label platform = platform"
    by (simp add: os_label_def archs_of_def platformArchMap_def split: if_splits)
  show ?thesis
    unfolding unknown_os_message [OF None] label
    by (intro conjI exI [of _ "''Unsupported OS: '' @ platform @ '', architecture: '' @ arch"]
          refl sublist_second sublist_last3)
next
  case (Some as)
  with assms(1) have absent: "arch \<notin> set as"
    by (simp add: unsupported_def)
  have "sublist platform (''Unsupported architecture on '' @ platform @ '': '' @ arch)"
    and "sublist arch (''Unsupported architecture on '' @ platform @ '': '' @ arch)"
    by (rule sublist_second, rule sublist_last3)
  moreover
  have "sublist (os_label platform)
          (''Unsupported architecture on '' @ os_label platform
             @ (if platform = ''android'' then '' '' else '': '') @ arch)"
    and "sublist arch
          (''Unsupported architecture on '' @ os_label platform
             @ (if platform = ''android'' then '' '' else '': '') @ arch)"
    by (rule sublist_second, rule sublist_last3)
  ultimately show ?thesis
    unfolding unknown_arch_message_table [OF Some absent]
      unknown_arch_message_switch [OF Some absent]
    by blast
qed

theorem unsupported_pair_throws_witness:
  "unsupported ''win32'' ''mips''
   \<and> ''win32'' \<notin> set Object_prototype_keys
   \<and> ''mips'' \<notin> set Object_prototype_keys
   \<and> (\<exists>msg. resolve_table True ''win32'' ''mips'' = Inl (Err UnsupportedErrorC msg)
          \<and> sublist ''win32'' msg \<and> sublist ''mips'' msg)
   \<and> (\<exists>msg. resolve_switch True ''win32'' ''mips'' = Inl (Err UnsupportedErrorC msg)
          \<and> sublist (os_label ''win32'') msg \<and> sublist ''mips'' msg)"
proof -
  have u: "unsupported ''win32'' ''mips''"
    by (simp add: unsupported_def archs_of_def platformArchMap_def)
  have p: "''win32'' \<notin> set Object_prototype_keys"
    by (simp add: Object_prototype_keys_def)
  have a: "''mips'' \<notin> set Object_prototype_keys"
    by (simp add: Object_prototype_keys_def)
  from unsupported_pair_throws [OF u p a, of True] u p a show ?thesis
    by blast
qed

text \<open>
  C9. On every platform and architecture that name no inherited member of an object, as
  all of Node's names do, and for either result of the libc probe, the table-driven
  resolver and the nested switch return the same package name whenever one of them
  returns a name, and one throws an \<open>UnsupportedError\<close> exactly when the other does.
\<close>

theorem resolvers_agree:
  assumes "platform \<notin> set Object_prototype_keys"
    and "arch \<notin> set Object_prototype_keys"
  shows "(\<forall>nodeName. resolve_table musl platform arch = Inr nodeName
            \<longleftrightarrow> resolve_switch musl platform arch = Inr nodeName)
       \<and> ((\<exists>msg. resolve_table musl platform arch = Inl (Err UnsupportedErrorC msg))
            \<longleftrightarrow> (\<exists>msg. resolve_switch musl platform arch = Inl (Err UnsupportedErrorC msg)))"
  by (simp add: resolve_table_def resolve_switch_def platformArchMap_def)

theorem resolvers_agree_witness:
  "''linux'' \<notin> set Object_prototype_keys
   \<and> ''x64'' \<notin> set Object_prototype_keys
   \<and> resolve_table True ''linux'' ''x64'' = Inr ''pinyin.linux-x64-musl''
   \<and> resolve_switch True ''linux'' ''x64'' = Inr ''pinyin.linux-x64-musl''
   \<and> ''sunos'' \<notin> set Object_prototype_keys
   \<and> (\<exists>msg. resolve_table True ''sunos'' ''x64'' = Inl (Err UnsupportedErrorC msg))
   \<and> (\<exists>msg. resolve_switch True ''sunos'' ''x64'' = Inl (Err UnsupportedErrorC msg))"
proof -
  have p: "''linux'' \<notin> set Object_prototype_keys"
    and a: "''x64'' \<notin> set Object_prototype_keys"
    and q: "''sunos'' \<notin> set Object_prototype_keys"
    by (simp_all add: Object_prototype_keys_def)
  have t: "resolve_table True ''linux'' ''x64'' = Inr ''pinyin.linux-x64-musl''"
    by (simp add: resolve_table_def platformArchMap_def)
  have u: "\<exists>msg. resolve_table True ''sunos'' ''x64'' = Inl (Err UnsupportedErrorC msg)"
    by (simp add: resolve_table_def platformArchMap_def)
  from resolvers_agree [OF p a, of True] t
  have "resolve_switch True ''linux'' ''x64'' = Inr ''pinyin.linux-x64-musl''"
    by blast
  moreover from resolvers_agree [OF q a, of True] u
  have "\<exists>msg. resolve_switch True ''sunos'' ''x64'' = Inl (Err UnsupportedErrorC msg)"
    by blast
  ultimately show ?thesis
    using p a q t u by blast
qed

text \<open>
  C10. Outside Linux x64 and Linux arm64 the libc probe has no influence: two runs of a
  resolver on the same platform and architecture with different probe results give the
  same package name or the same error.
\<close>

theorem libc_only_on_linux_x64_arm64:
  assumes "(platform, arch) \<notin> {(''linux'', ''x64''), (''linux'', ''arm64'')}"
  shows "resolve_table musl platform arch = resolve_table musl' platform arch
       \<and> resolve_switch musl platform arch = resolve_switch musl' platform arch"
  using assms
  by (simp add: resolve_table_def resolve_switch_def platformArchMap_def)

theorem libc_only_on_linux_x64_arm64_witness:
  "(''linux'', ''arm'') \<notin> {(''linux'', ''x64''), (''linux'', ''arm64'')}
   \<and> resolve_table True ''linux'' ''arm'' = resolve_table False ''linux'' ''arm''
   \<and> resolve_switch True ''linux'' ''arm'' = resolve_switch False ''linux'' ''arm''"
proof -
  have h: "(''linux'', ''arm'') \<notin> {(''linux'', ''x64''), (''linux'', ''arm64'')}"
    by simp
  from libc_only_on_linux_x64_arm64 [OF h, of True False] h show ?thesis
    by blast
qed

section \<open>Properties of the acquisition\<close>

lemma trace_emit [simp]: "trace (emit ev w) = trace w @ [ev]"
  by (simp add: emit_def)

lemma files_emit [simp]: "files (emit ev w) = files w"
  by (simp add: emit_def)


subsection \<open>The file is already there\<close>








subsection \<open>Failures of \<open>handleFile\<close>\<close>

lemma metadata_failure:
  assumes "get (metadata_url nodeName) = Inl e"
    and "js_get e ''message'' = Inr m"
  shows "handleFile env (Some get) nodeDir nodeName w =
     (Inl (Err DownloadErrorC (''Failed to fetch from URL: '' @ to_string m)),
      w\<lparr>trace := trace w @
          [HttpGet (metadata_url nodeName),
           LogError (''Failed to fetch from URL: '' @ metadata_url nodeName) e]\<rparr>)"
  using assms
  by (simp add: handleFile_def fetch_tarball_def Let_def rethrow_def emit_def)

text \<open>
  The metadata URL begins with \<open>https\<close>, which cannot start inside the words
  \<open>Failed to fetch from URL: \<close>: the URL occurs in a message with this introduction only
  where it occurs in the rest of the message.
\<close>

lemma url_not_in_introduction:
  "sublist (metadata_url nodeName) (''Failed to fetch from URL: '' @ s)
     \<longleftrightarrow> sublist (metadata_url nodeName) s"
  by (simp add: metadata_url_def sublist_Cons_right)

lemma missing_tarball:
  assumes "get (metadata_url nodeName) = Inr res"
    and "tarball_of res = Inr tarballUrl"
    and "\<not> truthy tarballUrl"
  shows "handleFile env (Some get) nodeDir nodeName w =
     (Inl (Err DownloadErrorC (''Failed to get the binary url from '' @ metadata_url nodeName)),
      w\<lparr>trace := trace w @
          [HttpGet (metadata_url nodeName),
           LogInfo (''Stating download from '' @ to_string tarballUrl)]\<rparr>)"
  using assms
  by (simp add: handleFile_def fetch_tarball_def Let_def emit_def)

lemma aborted_download:
  assumes "get (metadata_url nodeName) = Inr res"
    and "tarball_of res = Inr tarballUrl"
    and "truthy tarballUrl"
    and "new_Downloader env tarballUrl nodeDir = None"
    and "download env tarballUrl nodeDir = Inr (filePath, downloadStatus)"
    and "downloadStatus \<noteq> ''COMPLETE''"
  shows "handleFile env (Some get) nodeDir nodeName w =
    (Inl (Err DownloadErrorC ''Failed to download the binary file: Download was aborted''),
     w\<lparr>trace := trace w @
         [HttpGet (metadata_url nodeName),
          LogInfo (''Stating download from '' @ to_string tarballUrl),
          Download tarballUrl nodeDir,
          LogError ''Failed to download the file''
            (Err DownloadErrorC ''Download was aborted'')]\<rparr>)"
  using assms
  by (simp add: handleFile_def fetch_tarball_def download_and_extract_def Let_def emit_def
        rethrow_def)

lemma extract_tgz_rejects_with_string:
  assumes "unpack env p = (written, ending)" and "ending \<noteq> Finish"
  shows "\<exists>s. fst (extract_tgz env p w) = Inl (Str s)"
  using assms by (cases ending) (simp_all add: extract_tgz_def Let_def)

lemma rethrow_Str: "rethrow intro (Str s) = Err DownloadErrorC (intro @ ''undefined'')"
  by (simp add: rethrow_def)

text \<open>
  Whatever stream fails, the message of the \<open>DownloadError\<close> is the same: \<open>extract\<close>
  rejects with a string, and a string has no \<open>message\<close>.
\<close>

lemma extraction_failure:
  assumes "get (metadata_url nodeName) = Inr res"
    and "tarball_of res = Inr tarballUrl"
    and "truthy tarballUrl"
    and "new_Downloader env tarballUrl nodeDir = None"
    and "download env tarballUrl nodeDir = Inr (filePath, ''COMPLETE'')"
    and "unpack env (path_resolve env filePath) = (written, ending)"
    and "ending \<noteq> Finish"
  shows "fst (handleFile env (Some get) nodeDir nodeName w) =
    Inl (Err DownloadErrorC ''Failed to download the binary file: undefined'')"
proof -
  define w1 where "w1 = emit (LogInfo (''Stating download from '' @ to_string tarballUrl))
                          (emit (HttpGet (metadata_url nodeName)) w)"
  have fetch: "fetch_tarball (Some get) (metadata_url nodeName) w = (Inr tarballUrl, w1)"
    using assms(1,2) by (simp add: fetch_tarball_def Let_def w1_def)
  define w2 where "w2 = (emit (Download tarballUrl nodeDir) w1)
      \<lparr>files := insert (path_resolve env filePath)
                  (files (emit (Download tarballUrl nodeDir) w1))\<rparr>"
  obtain s where "fst (extract_tgz env (path_resolve env filePath) w2) = Inl (Str s)"
    using extract_tgz_rejects_with_string [OF assms(6,7)] by blast
  then obtain w3 where "extract_tgz env (path_resolve env filePath) w2 = (Inl (Str s), w3)"
    by (cases "extract_tgz env (path_resolve env filePath) w2") simp
  then have "download_and_extract env tarballUrl nodeDir w1 = (Inl (Str s), w3)"
    using assms(5) by (simp add: download_and_extract_def Let_def w2_def)
  then show ?thesis
    using fetch assms(3,4) by (simp add: handleFile_def Let_def rethrow_Str)
qed

text \<open>
  C5, as stated, fails: when the metadata request is refused with the error
  \<open>socket hang up\<close>, \<open>handleFile\<close> rejects with a \<open>DownloadError\<close> whose message is
  \<open>Failed to fetch from URL: socket hang up\<close>; the metadata URL does not occur in it.
\<close>

theorem metadata_failure_message_without_url:
  "fst (handleFile example_env (Some (\<lambda>url. Inl (Err ErrorC ''socket hang up'')))
          ''/data'' ''pinyin.linux-x64-gnu'' empty_world)
     = Inl (Err DownloadErrorC ''Failed to fetch from URL: socket hang up'')
   \<and> \<not> sublist (metadata_url ''pinyin.linux-x64-gnu'')
          ''Failed to fetch from URL: socket hang up''"
  by (simp add: handleFile_def fetch_tarball_def Let_def rethrow_def emit_def
        metadata_url_def sublist_Cons_right)

text \<open>
  C5, amended. When the metadata request is rejected with a cause \<open>e\<close> whose \<open>message\<close>
  can be read (any value but \<open>undefined\<close> and \<open>null\<close>), \<open>handleFile\<close> rejects with a
  \<open>DownloadError\<close> whose message is \<open>Failed to fetch from URL: \<close> followed by \<open>e.message\<close>;
  the metadata URL occurs in that message exactly when it occurs in \<open>e.message\<close>. The
  attempted URL is written to the error log, in a line logged together with \<open>e\<close>, and the
  metadata request is the only call made: nothing is downloaded.
\<close>

theorem metadata_failure_rejects:
  assumes "get (metadata_url nodeName) = Inl e"
    and "js_get e ''message'' = Inr m"
  shows "handleFile env (Some get) nodeDir nodeName w =
           (Inl (Err DownloadErrorC (''Failed to fetch from URL: '' @ to_string m)),
            w\<lparr>trace := trace w @
                [HttpGet (metadata_url nodeName),
                 LogError (''Failed to fetch from URL: '' @ metadata_url nodeName) e]\<rparr>)
       \<and> (sublist (metadata_url nodeName) (''Failed to fetch from URL: '' @ to_string m)
            \<longleftrightarrow> sublist (metadata_url nodeName) (to_string m))"
proof (intro conjI)
  show "handleFile env (Some get) nodeDir nodeName w =
           (Inl (Err DownloadErrorC (''Failed to fetch from URL: '' @ to_string m)),
            w\<lparr>trace := trace w @
                [HttpGet (metadata_url nodeName),
                 LogError (''Failed to fetch from URL: '' @ metadata_url nodeName) e]\<rparr>)"
    using assms by (rule metadata_failure [where get = get and nodeName = nodeName])
  show "sublist (metadata_url nodeName) (''Failed to fetch from URL: '' @ to_string m)
          \<longleftrightarrow> sublist (metadata_url nodeName) (to_string m)"
    by (rule url_not_in_introduction)
qed

theorem metadata_failure_rejects_witness:
  "(\<lambda>url. Inl (Err ErrorC ''socket hang up'')) (metadata_url ''pinyin.linux-x64-gnu'')
        = (Inl (Err ErrorC ''socket hang up'') :: js_value + js_value)
   \<and> js_get (Err ErrorC ''socket hang up'') ''message'' = Inr (Str ''socket hang up'')
   \<and> handleFile example_env (Some (\<lambda>url. Inl (Err ErrorC ''socket hang up'')))
        ''/data'' ''pinyin.linux-x64-gnu'' empty_world =
       (Inl (Err DownloadErrorC (''Failed to fetch from URL: '' @ to_string (Str ''socket hang up''))),
        empty_world\<lparr>trace := trace empty_world @
           [HttpGet (metadata_url ''pinyin.linux-x64-gnu''),
            LogError (''Failed to fetch from URL: '' @ metadata_url ''pinyin.linux-x64-gnu'')
              (Err ErrorC ''socket hang up'')]\<rparr>)
   \<and> (\<lambda>url. Inl (Err ErrorC (''request to '' @ url @ '' failed'')))
        (metadata_url ''pinyin.linux-x64-gnu'')
        = (Inl (Err ErrorC (''request to '' @ metadata_url ''pinyin.linux-x64-gnu'' @ '' failed''))
             :: js_value + js_value)
   \<and> sublist (metadata_url ''pinyin.linux-x64-gnu'')
        (''Failed to fetch from URL: ''
           @ to_string (Str (''request to '' @ metadata_url ''pinyin.linux-x64-gnu'' @ '' failed'')))"
proof -
  have h1: "(\<lambda>url. Inl (Err ErrorC ''socket hang up'')) (metadata_url ''pinyin.linux-x64-gnu'')
        = (Inl (Err ErrorC ''socket hang up'') :: js_value + js_value)"
    by simp
  have h2: "js_get (Err ErrorC ''socket hang up'') ''message'' = Inr (Str ''socket hang up'')"
    by simp
  note r1 = metadata_failure_rejects
         [where get = "\<lambda>url. Inl (Err ErrorC ''socket hang up'')"
            and nodeName = "''pinyin.linux-x64-gnu''" and env = example_env
            and nodeDir = "''/data''" and w = empty_world, OF h1 h2]
  have g1: "(\<lambda>url. Inl (Err ErrorC (''request to '' @ url @ '' failed'')))
        (metadata_url ''pinyin.linux-x64-gnu'')
        = (Inl (Err ErrorC (''request to '' @ metadata_url ''pinyin.linux-x64-gnu'' @ '' failed''))
             :: js_value + js_value)"
    by simp
  have g2: "js_get (Err ErrorC (''request to '' @ metadata_url ''pinyin.linux-x64-gnu'' @ '' failed''))
              ''message''
            = Inr (Str (''request to '' @ metadata_url ''pinyin.linux-x64-gnu'' @ '' failed''))"
    by simp
  have inside: "sublist (metadata_url ''pinyin.linux-x64-gnu'')
      (to_string (Str (''request to '' @ metadata_url ''pinyin.linux-x64-gnu'' @ '' failed'')))"
    unfolding to_string.simps by (rule sublist_second)
  note r2 = metadata_failure_rejects
         [where get = "\<lambda>url. Inl (Err ErrorC (''request to '' @ url @ '' failed''))"
            and nodeName = "''pinyin.linux-x64-gnu''" and env = example_env
            and nodeDir = "''/data''" and w = empty_world, OF g1 g2]
  from r2 inside
  have "sublist (metadata_url ''pinyin.linux-x64-gnu'')
        (''Failed to fetch from URL: ''
           @ to_string (Str (''request to '' @ metadata_url ''pinyin.linux-x64-gnu'' @ '' failed'')))"
    by blast
  with r1 h1 h2 g1 show ?thesis
    by blast
qed

text \<open>
  C6 describes what the code sets out to do and misses. With a completed download, a
  failing read stream, a failing gunzip stream and a failing tar stream all make
  \<open>handleFile\<close> reject with the same \<open>DownloadError\<close>, whose message ends in \<open>undefined\<close>;
  the text that tells the stages apart reaches the error log only.
\<close>

theorem extraction_errors_same_message:
  "fst (handleFile
          (example_env\<lparr>unpack := (\<lambda>p. ([], ReadError (Err ErrorC ''EIO: i/o error, read'')))\<rparr>)
          (Some (http_get example_env)) ''/data'' ''pinyin.linux-x64-gnu'' empty_world)
     = Inl (Err DownloadErrorC ''Failed to download the binary file: undefined'')
   \<and> fst (handleFile
          (example_env\<lparr>unpack := (\<lambda>p. ([], GunzipError (Err ErrorC ''incorrect header check'')))\<rparr>)
          (Some (http_get example_env)) ''/data'' ''pinyin.linux-x64-gnu'' empty_world)
     = Inl (Err DownloadErrorC ''Failed to download the binary file: undefined'')
   \<and> fst (handleFile
          (example_env\<lparr>unpack := (\<lambda>p. ([], ExtractError (Err ErrorC ''TAR_BAD_ARCHIVE: Unrecognized archive format'')))\<rparr>)
          (Some (http_get example_env)) ''/data'' ''pinyin.linux-x64-gnu'' empty_world)
     = Inl (Err DownloadErrorC ''Failed to download the binary file: undefined'')
   \<and> last (trace (snd (handleFile
          (example_env\<lparr>unpack := (\<lambda>p. ([], GunzipError (Err ErrorC ''incorrect header check'')))\<rparr>)
          (Some (http_get example_env)) ''/data'' ''pinyin.linux-x64-gnu'' empty_world)))
     = LogError ''Failed to download the file''
         (Str ''An error occurred while gunzipping the file: Error: incorrect header check'')"
  by (simp add: handleFile_def fetch_tarball_def tarball_of_def download_and_extract_def
        extract_tgz_def rethrow_def metadata_url_def example_env_def good_response_def
        empty_world_def emit_def Let_def)

text \<open>
  C7 describes what the code sets out to do and misses. With a \<open>dist\<close> object that has no
  \<open>tarball\<close>, \<open>handleFile\<close> reaches its test of \<open>tarballUrl\<close> and rejects with a
  \<open>DownloadError\<close> that names the metadata URL. With the body \<open>{}\<close>, which has no tarball
  URL either, reading \<open>res.dist.tarball\<close> throws inside the first \<open>try\<close>: the
  \<open>DownloadError\<close> is built from the text of that \<open>TypeError\<close> and the metadata URL does
  not occur in it. With a tarball that is not a string, here the number 42, the test
  passes; when the constructor of the download library refuses the value, its error
  leaves \<open>handleFile\<close> as it is, not as a \<open>DownloadError\<close>.
\<close>

theorem missing_dist_loses_url:
  "fst (handleFile example_env (Some (\<lambda>url. Inr (Obj [(''dist'', Obj [])])))
          ''/data'' ''pinyin.linux-x64-gnu'' empty_world)
     = Inl (Err DownloadErrorC
             (''Failed to get the binary url from '' @ metadata_url ''pinyin.linux-x64-gnu''))
   \<and> fst (handleFile example_env (Some (\<lambda>url. Inr (Obj [])))
          ''/data'' ''pinyin.linux-x64-gnu'' empty_world)
     = Inl (Err DownloadErrorC
             (''Failed to fetch from URL: Cannot read properties of undefined (reading ''
                @ apostrophe @ ''tarball'' @ apostrophe @ '')''))
   \<and> \<not> sublist (metadata_url ''pinyin.linux-x64-gnu'')
          (''Failed to fetch from URL: Cannot read properties of undefined (reading ''
             @ apostrophe @ ''tarball'' @ apostrophe @ '')'')
   \<and> fst (handleFile
            (example_env\<lparr>new_Downloader :=
               (\<lambda>url dir. case url of Str s \<Rightarrow> None
                           | v \<Rightarrow> Some (Err ErrorC ''config.url must be a string''))\<rparr>)
            (Some (\<lambda>url. Inr (Obj [(''dist'', Obj [(''tarball'', Num 42)])])))
          ''/data'' ''pinyin.linux-x64-gnu'' empty_world)
     = Inl (Err ErrorC ''config.url must be a string'')"
  by (simp add: handleFile_def fetch_tarball_def tarball_of_def Let_def rethrow_def emit_def
        metadata_url_def apostrophe_def sublist_Cons_right example_env_def)

text \<open>
  C8. When the download resolves with a status other than \<open>COMPLETE\<close>, \<open>handleFile\<close>
  rejects with a \<open>DownloadError\<close> (the one thrown in the \<open>else\<close> branch, wrapped once more
  by the \<open>catch\<close>), no extraction is started and no file is written; called from
  \<open>getNativeBinding\<close> for a missing file, the same \<open>DownloadError\<close> is rethrown.
\<close>

theorem incomplete_download_rejects:
  assumes "get (metadata_url nodeName) = Inr res"
    and "tarball_of res = Inr tarballUrl"
    and "truthy tarballUrl"
    and "new_Downloader env tarballUrl nodeDir = None"
    and "download env tarballUrl nodeDir = Inr (filePath, downloadStatus)"
    and "downloadStatus \<noteq> ''COMPLETE''"
  shows "handleFile env (Some get) nodeDir nodeName w =
           (Inl (Err DownloadErrorC
                  ''Failed to download the binary file: Download was aborted''),
            w\<lparr>trace := trace w @
                [HttpGet (metadata_url nodeName),
                 LogInfo (''Stating download from '' @ to_string tarballUrl),
                 Download tarballUrl nodeDir,
                 LogError ''Failed to download the file''
                   (Err DownloadErrorC ''Download was aborted'')]\<rparr>)
       \<and> extractions (snd (handleFile env (Some get) nodeDir nodeName w)) = extractions w
       \<and> files (snd (handleFile env (Some get) nodeDir nodeName w)) = files w
       \<and> (nodePath_of env nodeDir nodeName \<notin> files w \<longrightarrow>
            fst (load_binding env (Some get) nodeDir nodeName platform arch w)
              = Inl (Err DownloadErrorC
                      ''Failed to download the binary file: Download was aborted'')
          \<and> extractions (snd (load_binding env (Some get) nodeDir nodeName platform arch w))
              = extractions w)"
proof -
  note hf = aborted_download [where get = get and nodeName = nodeName, OF assms]
  have "nodePath_of env nodeDir nodeName \<notin> files w \<Longrightarrow>
          fst (load_binding env (Some get) nodeDir nodeName platform arch w)
              = Inl (Err DownloadErrorC
                      ''Failed to download the binary file: Download was aborted'')
          \<and> extractions (snd (load_binding env (Some get) nodeDir nodeName platform arch w))
              = extractions w"
    by (simp add: load_binding_def Let_def hf binding_failed_def extractions_def)
  then show ?thesis
    by (simp add: hf extractions_def)
qed

theorem incomplete_download_rejects_witness:
  "http_get example_env (metadata_url ''pinyin.linux-x64-gnu'') = Inr good_response
   \<and> tarball_of good_response = Inr (Str ''https://example/X.tgz'')
   \<and> truthy (Str ''https://example/X.tgz'')
   \<and> new_Downloader (example_env\<lparr>download := (\<lambda>url dir. Inr ('''', ''ABORTED''))\<rparr>)
        (Str ''https://example/X.tgz'') ''/data'' = None
   \<and> download (example_env\<lparr>download := (\<lambda>url dir. Inr ('''', ''ABORTED''))\<rparr>)
        (Str ''https://example/X.tgz'') ''/data'' = Inr ('''', ''ABORTED'')
   \<and> ''ABORTED'' \<noteq> ''COMPLETE''
   \<and> fst (handleFile (example_env\<lparr>download := (\<lambda>url dir. Inr ('''', ''ABORTED''))\<rparr>)
            (Some (http_get example_env)) ''/data'' ''pinyin.linux-x64-gnu'' empty_world)
       = Inl (Err DownloadErrorC ''Failed to download the binary file: Download was aborted'')
   \<and> extractions
       (snd (handleFile (example_env\<lparr>download := (\<lambda>url dir. Inr ('''', ''ABORTED''))\<rparr>)
               (Some (http_get example_env)) ''/data'' ''pinyin.linux-x64-gnu'' empty_world))
       = extractions empty_world"
proof -
  have h1: "http_get example_env (metadata_url ''pinyin.linux-x64-gnu'') = Inr good_response"
    by (simp add: example_env_def)
  have h2: "tarball_of good_response = Inr (Str ''https://example/X.tgz'')"
    by (simp add: tarball_of_def good_response_def)
  have h3: "truthy (Str ''https://example/X.tgz'')"
    by simp
  have h4: "new_Downloader (example_env\<lparr>download := (\<lambda>url dir. Inr ('''', ''ABORTED''))\<rparr>)
        (Str ''https://example/X.tgz'') ''/data'' = None"
    by (simp add: example_env_def)
  have h5: "download (example_env\<lparr>download := (\<lambda>url dir. Inr ('''', ''ABORTED''))\<rparr>)
        (Str ''https://example/X.tgz'') ''/data'' = Inr ('''', ''ABORTED'')"
    by simp
  have h6: "''ABORTED'' \<noteq> ''COMPLETE''"
    by simp
  note r = incomplete_download_rejects
             [where get = "http_get example_env" and nodeName = "''pinyin.linux-x64-gnu''"
                and w = empty_world, OF h1 h2 h3 h4 h5 h6]
  from r have "fst (handleFile (example_env\<lparr>download := (\<lambda>url dir. Inr ('''', ''ABORTED''))\<rparr>)
            (Some (http_get example_env)) ''/data'' ''pinyin.linux-x64-gnu'' empty_world)
       = Inl (Err DownloadErrorC ''Failed to download the binary file: Download was aborted'')"
    by simp
  with r h1 h2 h3 h4 h5 h6 show ?thesis
    by blast
qed

end
